theory Spec2Isabelle
  imports Complex_Main "HOL-Library.Multiset"
begin

section \<open>Vectors and the numpy operations the notebooks use\<close>

text \<open>
  The notebooks compute on numpy arrays of floats. A one-dimensional array is a list of
  reals, a two-dimensional array is the list of its rows. Python exceptions are values of
  \<open>py_error\<close>.
\<close>

type_synonym vec = "real list"

type_synonym matrix = "real list list"

datatype py_error = IndexError | ValueError

subsection \<open>Double-precision rounding\<close>

text \<open>
  The arrays hold IEEE 754 doubles: every addition, subtraction, multiplication and
  division returns the exact result rounded to the nearest double, ties to the even
  significand. \<open>fl64 x\<close> is that double for a real \<open>x\<close>: \<open>x\<close> is scaled by the unit in the
  last place of its binade (53 significant bits; the exponent is not below that of the
  subnormal range), rounded to an integer by \<open>rne\<close>, and scaled back. The exponent
  is not bounded above: the model is that of the machine on the runs in which every
  result has a magnitude below \<open>2\<^sup>1\<^sup>0\<^sup>2\<^sup>4\<close>, where the machine gives no infinity.
\<close>

definition rne :: "real \<Rightarrow> int" where
  "rne y =
     (let f = \<lfloor>y\<rfloor>; d = y - of_int f
      in if d < 1 / 2 then f else if 1 / 2 < d then f + 1 else if even f then f else f + 1)"

definition binade :: "real \<Rightarrow> int" where
  "binade x = max \<lfloor>log 2 \<bar>x\<bar>\<rfloor> (- 1022)"

definition fl64 :: "real \<Rightarrow> real" where
  "fl64 x =
     (if x = 0 then 0
      else of_int (rne (x / 2 powr of_int (binade x - 52))) * 2 powr of_int (binade x - 52))"

text \<open>
  The sums, the matrix products and the Euclidean norm are computed by library routines:
  \<^verbatim>\<open>u.sum()\<close> and \<^verbatim>\<open>np.linalg.norm(x, 1)\<close> go through numpy's \<^verbatim>\<open>np.add.reduce\<close>; \<^verbatim>\<open>A @ x\<close>,
  \<^verbatim>\<open>A.T @ g\<close> and \<^verbatim>\<open>np.linalg.norm(g)\<close> (the square root of \<^verbatim>\<open>g.dot(g)\<close>) go through the BLAS
  numpy is linked with. The order in which these routines add depends on the length of the
  array and on the build of the library. A \<open>library\<close> stands for them: the four routines
  (the sum of an array, the product of a matrix with a vector, the product of the
  transpose of a matrix of \<open>n\<close> columns with a vector, the Euclidean norm), of which only
  this is fixed: the sum of an all-zero array is zero, and a product has one entry for
  each row of its left factor.
\<close>

type_synonym routines =
  "(vec \<Rightarrow> real) \<times> (matrix \<Rightarrow> vec \<Rightarrow> vec) \<times> (nat \<Rightarrow> matrix \<Rightarrow> vec \<Rightarrow> vec) \<times> (vec \<Rightarrow> real)"

typedef library =
  "{L :: routines. case L of (r, mv, mtv, nm) \<Rightarrow>
      (\<forall>n. r (replicate n 0) = 0) \<and> (\<forall>A x. length (mv A x) = length A)
      \<and> (\<forall>n A g. length (mtv n A g) = n)}"
  morphisms routines_of Abs_library
proof
  show "(\<lambda>xs. 0, \<lambda>A x. map (\<lambda>row. 0) A, \<lambda>n A g. replicate n 0, \<lambda>g. 0)
      \<in> {L :: routines. case L of (r, mv, mtv, nm) \<Rightarrow>
            (\<forall>n. r (replicate n 0) = 0) \<and> (\<forall>A x. length (mv A x) = length A)
            \<and> (\<forall>n A g. length (mtv n A g) = n)}"
    by simp
qed

setup_lifting type_definition_library

lift_definition reduce :: "library \<Rightarrow> vec \<Rightarrow> real" is
  "\<lambda>(r, mv, mtv, nm). r" .

lift_definition matmul :: "library \<Rightarrow> matrix \<Rightarrow> vec \<Rightarrow> vec" is
  "\<lambda>(r, mv, mtv, nm). mv" .

lift_definition matmulT :: "library \<Rightarrow> nat \<Rightarrow> matrix \<Rightarrow> vec \<Rightarrow> vec" is
  "\<lambda>(r, mv, mtv, nm). mtv" .

lift_definition vnorm :: "library \<Rightarrow> vec \<Rightarrow> real" is
  "\<lambda>(r, mv, mtv, nm). nm" .

text \<open>
  On an array of fewer than eight entries numpy adds from left to right, rounding every
  sum (\<open>seq_add\<close>). \<open>seq_dot\<close> is the dot product that adds the rounded products in the
  same way, and \<open>seq_lib\<close> the library built from the two. It is used in the concrete runs
  below, all on arrays of fewer than eight entries; every product and every sum of their
  matrix products and dot products is an integer of small magnitude, which every order
  of addition computes without rounding.
\<close>

definition seq_add :: "vec \<Rightarrow> real" where
  "seq_add xs = (case xs of [] \<Rightarrow> 0 | x # rest \<Rightarrow> foldl (\<lambda>acc a. fl64 (acc + a)) x rest)"

definition seq_dot :: "vec \<Rightarrow> vec \<Rightarrow> real" where
  "seq_dot a b = seq_add (map (\<lambda>(p, q). fl64 (p * q)) (zip a b))"

lift_definition seq_lib :: library is
  "(seq_add,
    \<lambda>A x. map (\<lambda>row. seq_dot row x) A,
    \<lambda>n A g. map (\<lambda>j. seq_dot (map (\<lambda>row. row ! j) A) g) [0..<n],
    \<lambda>g. fl64 (sqrt (seq_dot g g)))"
proof -
  have "foldl (\<lambda>acc a. fl64 (acc + a)) 0 (replicate m 0) = 0" for m
    by (induction m) (simp_all add: fl64_def)
  then have "seq_add (replicate n 0) = 0" for n
    by (cases n) (simp_all add: seq_add_def)
  then show "case (seq_add,
        \<lambda>A x. map (\<lambda>row. seq_dot row x) A,
        \<lambda>n A g. map (\<lambda>j. seq_dot (map (\<lambda>row. row ! j) A) g) [0..<n],
        \<lambda>g. fl64 (sqrt (seq_dot g g))) of
      (r, mv, mtv, nm) \<Rightarrow>
        (\<forall>n. r (replicate n 0) = 0) \<and> (\<forall>A x. length (mv A x) = length A)
        \<and> (\<forall>n A g. length (mtv n A g) = n)"
    by simp
qed

text \<open>
  The projector, the gradient and the descent loop are modelled in two arithmetics:
  \<open>Double L\<close>, in which the program runs (\<open>L\<close> is the library), and \<open>Exact\<close>, the arithmetic
  of the reals, in which no operation rounds. \<open>rnd ar\<close> is applied to the result of every
  arithmetic operation, and \<open>asum ar\<close> is \<^verbatim>\<open>np.add.reduce\<close>.
\<close>

datatype arith = Exact | Double library

abbreviation Double_seq :: arith where
  "Double_seq \<equiv> Double seq_lib"

fun rnd :: "arith \<Rightarrow> real \<Rightarrow> real" where
  "rnd Exact x = x"
| "rnd (Double L) x = fl64 x"

fun asum :: "arith \<Rightarrow> vec \<Rightarrow> real" where
  "asum Exact xs = sum_list xs"
| "asum (Double L) xs = reduce L xs"

text \<open>\<^verbatim>\<open>np.linalg.norm(x, 1)\<close>: the sum of the absolute values, \<^verbatim>\<open>add.reduce(abs(x))\<close>.\<close>

definition norm1 :: "arith \<Rightarrow> vec \<Rightarrow> real" where
  "norm1 ar x = asum ar (map abs x)"

text \<open>\<^verbatim>\<open>np.linalg.norm(x)\<close>: the Euclidean norm.\<close>

definition sum_squares :: "vec \<Rightarrow> real" where
  "sum_squares x = sum_list (map (\<lambda>a. a * a) x)"

definition norm2 :: "vec \<Rightarrow> real" where
  "norm2 x = sqrt (sum_squares x)"

text \<open>
  \<^verbatim>\<open>np.cumsum\<close>: the running sums, left to right; the first is the first entry, every
  further one the rounded sum of its predecessor and the next entry.
\<close>

fun cumsum_from :: "arith \<Rightarrow> real \<Rightarrow> vec \<Rightarrow> vec" where
  "cumsum_from ar a [] = []"
| "cumsum_from ar a (x # xs) = rnd ar (a + x) # cumsum_from ar (rnd ar (a + x)) xs"

definition cumsum :: "arith \<Rightarrow> vec \<Rightarrow> vec" where
  "cumsum ar xs = (case xs of [] \<Rightarrow> [] | x # rest \<Rightarrow> x # cumsum_from ar x rest)"

text \<open>Boolean-mask indexing \<^verbatim>\<open>xs[bs]\<close>: the entries of \<open>xs\<close> where \<open>bs\<close> is true.\<close>

definition masked :: "'a list \<Rightarrow> bool list \<Rightarrow> 'a list" where
  "masked xs bs = map fst (filter snd (zip xs bs))"

section \<open>Projection onto the L1 ball (\<^verbatim>\<open>project_onto_l1_ball\<close>)\<close>

text \<open>
  \<^verbatim>\<open>
  def project_onto_l1_ball(x, N):
      if np.linalg.norm(x, 1) <= N:
          return x
      u = np.abs(x)
      if u.sum() <= N:
          return x
      s = np.sort(u)[::-1]
      cssv = np.cumsum(s) - N
      ind = np.arange(len(s)) + 1
      cond = s - cssv / ind > 0
      rho = ind[cond][-1]
      theta = cssv[cond][-1] / rho
      return np.sign(x) * np.maximum(u - theta, 0)
  \<close>
  Indexing an empty selection with \<^verbatim>\<open>[-1]\<close> raises \<^verbatim>\<open>IndexError\<close>. The absolute value,
  the sort, the comparisons, the maximum and the product with the sign (\<open>-1\<close>, \<open>0\<close> or \<open>1\<close>)
  are exact; the sums, the differences and the quotients round.
\<close>

definition project_onto_l1_ball :: "arith \<Rightarrow> vec \<Rightarrow> real \<Rightarrow> py_error + vec" where
  "project_onto_l1_ball ar x N =
     (if norm1 ar x \<le> N then Inr x
      else
        let u = map abs x in
        if asum ar u \<le> N then Inr x
        else
          let s = rev (sort u);
              cssv = map (\<lambda>c. rnd ar (c - N)) (cumsum ar s);
              ind = map (\<lambda>i. i + 1) [0..<length s];
              cond = map (\<lambda>(si, ci, i). rnd ar (si - rnd ar (ci / real i)) > 0)
                       (zip s (zip cssv ind))
          in if masked ind cond = [] then Inl IndexError
             else
               let rho = last (masked ind cond);
                   theta = rnd ar (last (masked cssv cond) / real rho)
               in Inr (map (\<lambda>(xi, ui). sgn xi * max (rnd ar (ui - theta)) 0) (zip x u)))"

subsection \<open>The threshold, as the proofs and the specification name it\<close>

text \<open>
  With \<open>s\<close> the descending sort of the absolute values, \<open>thr ar s N i\<close> is the candidate
  threshold at the 0-based index \<open>i\<close> (\<^verbatim>\<open>cssv[i] / ind[i]\<close>), and \<open>qualifies ar s N i\<close> is
  the entry \<^verbatim>\<open>cond[i]\<close>.
\<close>

definition thr :: "arith \<Rightarrow> vec \<Rightarrow> real \<Rightarrow> nat \<Rightarrow> real" where
  "thr ar s N i = rnd ar (rnd ar (cumsum ar s ! i - N) / real (Suc i))"

definition qualifies :: "arith \<Rightarrow> vec \<Rightarrow> real \<Rightarrow> nat \<Rightarrow> bool" where
  "qualifies ar s N i \<longleftrightarrow> rnd ar (s ! i - thr ar s N i) > 0"

definition sorted_abs :: "vec \<Rightarrow> vec" where
  "sorted_abs v = rev (sort (map abs v))"






section \<open>The Huber gradient (\<^verbatim>\<open>huber_gradient\<close>)\<close>

text \<open>
  The matrix product \<^verbatim>\<open>A @ x\<close> of a two-dimensional array with a vector raises
  \<^verbatim>\<open>ValueError\<close> unless every row has the length of \<open>x\<close>. (A matrix without rows is
  taken to have as many columns as \<open>x\<close> has entries.)
\<close>

definition dot :: "vec \<Rightarrow> vec \<Rightarrow> real" where
  "dot a b = sum_list (map (\<lambda>(p, q). p * q) (zip a b))"

definition matvec :: "matrix \<Rightarrow> vec \<Rightarrow> py_error + vec" where
  "matvec A x =
     (if list_all (\<lambda>row. length row = length x) A then Inr (map (\<lambda>row. dot row x) A)
      else Inl ValueError)"

text \<open>
  \<^verbatim>\<open>A.T @ g\<close> for a matrix with \<open>n\<close> columns: entry \<open>j\<close> is the product of column \<open>j\<close> with
  \<open>g\<close>; the shapes fit only when \<open>g\<close> has one entry for each row of \<open>A\<close>.
\<close>

definition matTvec :: "nat \<Rightarrow> matrix \<Rightarrow> vec \<Rightarrow> py_error + vec" where
  "matTvec n A g =
     (if length g = length A then Inr (map (\<lambda>j. dot (map (\<lambda>row. row ! j) A) g) [0..<n])
      else Inl ValueError)"

text \<open>
  The difference \<^verbatim>\<open>a - b\<close> of two one-dimensional arrays, with numpy's broadcasting: equal
  lengths, or one of the two of length one.
\<close>

definition broadcast_sub :: "vec \<Rightarrow> vec \<Rightarrow> py_error + vec" where
  "broadcast_sub a b =
     (if length a = length b then Inr (map (\<lambda>(p, q). p - q) (zip a b))
      else if length b = 1 then Inr (map (\<lambda>p. p - b ! 0) a)
      else if length a = 1 then Inr (map (\<lambda>q. a ! 0 - q) b)
      else Inl ValueError)"

text \<open>
  \<^verbatim>\<open>
  def huber_gradient(A, x, y):
      Ax_minus_y = A @ x - y
      grad = np.where(np.abs(Ax_minus_y) <= 1, 2 * Ax_minus_y, 2 * np.sign(Ax_minus_y))
      return A.T @ grad
  \<close>
\<close>

definition huber_gradient :: "matrix \<Rightarrow> vec \<Rightarrow> vec \<Rightarrow> py_error + vec" where
  "huber_gradient A x y =
     (case matvec A x of
        Inl e \<Rightarrow> Inl e
      | Inr Ax \<Rightarrow>
          (case broadcast_sub Ax y of
             Inl e \<Rightarrow> Inl e
           | Inr Ax_minus_y \<Rightarrow>
               let grad = map (\<lambda>r. if \<bar>r\<bar> \<le> 1 then 2 * r else 2 * sgn r) Ax_minus_y
               in matTvec (length x) A grad))"


section \<open>Projected gradient descent (\<^verbatim>\<open>gradient_descent\<close>)\<close>

text \<open>
  \<^verbatim>\<open>
  def gradient_descent(A, x, y, step_size=1e-4, max_iters=1000, tolerance=1e-4):
      for k in range(max_iters):
          grad = huber_gradient(A, x, y)
          x = x - step_size * grad
          x = project_onto_l1_ball(x, N)
          if np.linalg.norm(grad) < tolerance:
              print(f"Converged in {k} iterations")
              break
      return x
  \<close>
  The radius \<open>N\<close> is a global of the notebook (\<^verbatim>\<open>N = 10\<close>); the model takes it as an
  argument, after the arithmetic. The function returns the iterate only; what it prints
  is modelled as the second component of the result: \<open>Some k\<close> when the loop was left at
  iteration \<open>k\<close> through the convergence test, \<open>None\<close> when the loop ran out of iterations.
\<close>

definition N_notebook :: real where
  "N_notebook = 10"

text \<open>
  \<^verbatim>\<open>huber_gradient\<close> in doubles (the definition of the previous section is the function in
  exact arithmetic): the two matrix products are the library's, the differences and the
  doublings round, and the shapes are checked as there.
\<close>

definition matvec_fl :: "library \<Rightarrow> matrix \<Rightarrow> vec \<Rightarrow> py_error + vec" where
  "matvec_fl L A x =
     (if list_all (\<lambda>row. length row = length x) A then Inr (matmul L A x)
      else Inl ValueError)"

definition matTvec_fl :: "library \<Rightarrow> nat \<Rightarrow> matrix \<Rightarrow> vec \<Rightarrow> py_error + vec" where
  "matTvec_fl L n A g =
     (if length g = length A then Inr (matmulT L n A g)
      else Inl ValueError)"

definition broadcast_sub_fl :: "vec \<Rightarrow> vec \<Rightarrow> py_error + vec" where
  "broadcast_sub_fl a b =
     (if length a = length b then Inr (map (\<lambda>(p, q). fl64 (p - q)) (zip a b))
      else if length b = 1 then Inr (map (\<lambda>p. fl64 (p - b ! 0)) a)
      else if length a = 1 then Inr (map (\<lambda>q. fl64 (a ! 0 - q)) b)
      else Inl ValueError)"

definition huber_gradient_fl :: "library \<Rightarrow> matrix \<Rightarrow> vec \<Rightarrow> vec \<Rightarrow> py_error + vec" where
  "huber_gradient_fl L A x y =
     (case matvec_fl L A x of
        Inl e \<Rightarrow> Inl e
      | Inr Ax \<Rightarrow>
          (case broadcast_sub_fl Ax y of
             Inl e \<Rightarrow> Inl e
           | Inr Ax_minus_y \<Rightarrow>
               let grad = map (\<lambda>r. if \<bar>r\<bar> \<le> 1 then fl64 (2 * r) else fl64 (2 * sgn r))
                            Ax_minus_y
               in matTvec_fl L (length x) A grad))"

text \<open>
  The gradient and \<^verbatim>\<open>np.linalg.norm(grad)\<close> as the loop calls them, in either arithmetic.
\<close>

fun gradient :: "arith \<Rightarrow> matrix \<Rightarrow> vec \<Rightarrow> vec \<Rightarrow> py_error + vec" where
  "gradient Exact A x y = huber_gradient A x y"
| "gradient (Double L) A x y = huber_gradient_fl L A x y"

fun grad_norm :: "arith \<Rightarrow> vec \<Rightarrow> real" where
  "grad_norm Exact g = norm2 g"
| "grad_norm (Double L) g = vnorm L g"

text \<open>
  \<^verbatim>\<open>x - step_size * grad\<close>, with numpy's broadcasting; the products and the differences
  round.
\<close>

definition descent_step :: "arith \<Rightarrow> vec \<Rightarrow> real \<Rightarrow> vec \<Rightarrow> py_error + vec" where
  "descent_step ar x step_size grad =
     (let d = map (\<lambda>g. rnd ar (step_size * g)) grad
      in if length x = length d then Inr (map (\<lambda>(p, q). rnd ar (p - q)) (zip x d))
         else if length d = 1 then Inr (map (\<lambda>p. rnd ar (p - d ! 0)) x)
         else if length x = 1 then Inr (map (\<lambda>q. rnd ar (x ! 0 - q)) d)
         else Inl ValueError)"

fun gd_loop ::
  "arith \<Rightarrow> real \<Rightarrow> matrix \<Rightarrow> vec \<Rightarrow> real \<Rightarrow> real \<Rightarrow> nat \<Rightarrow> nat \<Rightarrow> vec
     \<Rightarrow> py_error + vec \<times> nat option" where
  "gd_loop ar N A y step_size tolerance 0 k x = Inr (x, None)"
| "gd_loop ar N A y step_size tolerance (Suc left) k x =
     (case gradient ar A x y of
        Inl e \<Rightarrow> Inl e
      | Inr grad \<Rightarrow>
          (case descent_step ar x step_size grad of
             Inl e \<Rightarrow> Inl e
           | Inr x1 \<Rightarrow>
               (case project_onto_l1_ball ar x1 N of
                  Inl e \<Rightarrow> Inl e
                | Inr x2 \<Rightarrow>
                    if grad_norm ar grad < tolerance then Inr (x2, Some k)
                    else gd_loop ar N A y step_size tolerance left (Suc k) x2)))"

text \<open>\<^verbatim>\<open>range(max_iters)\<close> is empty for a negative \<^verbatim>\<open>max_iters\<close>.\<close>

definition gradient_descent ::
  "arith \<Rightarrow> real \<Rightarrow> matrix \<Rightarrow> vec \<Rightarrow> vec \<Rightarrow> real \<Rightarrow> int \<Rightarrow> real
     \<Rightarrow> py_error + vec \<times> nat option" where
  "gradient_descent ar N A x y step_size max_iters tolerance =
     gd_loop ar N A y step_size tolerance (nat max_iters) 0 x"

subsection \<open>The iterates, as the specification names them\<close>







section \<open>The ADMM loop of \<^verbatim>\<open>admm.ipynb\<close>\<close>

text \<open>
  \<^verbatim>\<open>
  for k in tqdm(range(max_iters)):
      w_tilde_obj = f(w_tilde) + (rho / 2) * cp.sum_squares(w_tilde - w.value + y / rho)
      w_tilde_problem = cp.Problem(cp.Minimize(w_tilde_obj))
      w_tilde_problem.solve(solver=cp.SCS)
      w_obj = g(w) + (rho / 2) * cp.sum_squares(w - w_tilde.value - y / rho)
      w_problem = cp.Problem(cp.Minimize(w_obj))
      w_problem.solve(solver=cp.SCS)
      y += rho * (w_tilde.value - w.value)
      residual = np.linalg.norm(w.value - w_tilde.value)
      residuals.append(residual)
      if residual < 1e-4:
          break
  \<close>
  The convex solver is not part of the repository: it is a parameter of the model. A call
  of \<^verbatim>\<open>solve\<close> receives the objective (a function of the value of the problem's variable)
  and leaves a value in that variable together with a status; \<open>OptimalInaccurate\<close> is the
  status of a solve that did not converge to the solver's tolerance. The loop reads the
  value and discards the status. All vectors have the common length \<open>n\<close> of the script.
\<close>

definition vadd :: "vec \<Rightarrow> vec \<Rightarrow> vec" where
  "vadd a b = map (\<lambda>(p, q). p + q) (zip a b)"

definition vsub :: "vec \<Rightarrow> vec \<Rightarrow> vec" where
  "vsub a b = map (\<lambda>(p, q). p - q) (zip a b)"

definition vdiv :: "vec \<Rightarrow> real \<Rightarrow> vec" where
  "vdiv a c = map (\<lambda>p. p / c) a"

datatype solver_status = Optimal | OptimalInaccurate

type_synonym objective = "vec \<Rightarrow> real"

type_synonym solver = "objective \<Rightarrow> solver_status \<times> vec"

record admm_state =
  w_value :: vec
  w_tilde_value :: vec
  y_value :: vec
  residuals :: "real list"

definition w_tilde_obj :: "objective \<Rightarrow> real \<Rightarrow> vec \<Rightarrow> vec \<Rightarrow> objective" where
  "w_tilde_obj f rho w y = (\<lambda>u. f u + (rho / 2) * sum_squares (vadd (vsub u w) (vdiv y rho)))"

definition w_obj :: "objective \<Rightarrow> real \<Rightarrow> vec \<Rightarrow> vec \<Rightarrow> objective" where
  "w_obj g rho w_tilde y = (\<lambda>u. g u + (rho / 2) * sum_squares (vsub (vsub u w_tilde) (vdiv y rho)))"

text \<open>One pass through the loop body; the second component is \<^verbatim>\<open>residual\<close>.\<close>

definition admm_iteration ::
  "solver \<Rightarrow> objective \<Rightarrow> objective \<Rightarrow> real \<Rightarrow> admm_state \<Rightarrow> admm_state \<times> real" where
  "admm_iteration solve f g rho st =
     (let w_tilde' = snd (solve (w_tilde_obj f rho (w_value st) (y_value st)));
          w' = snd (solve (w_obj g rho w_tilde' (y_value st)));
          y' = vadd (y_value st) (map (\<lambda>d. rho * d) (vsub w_tilde' w'));
          residual = norm2 (vsub w' w_tilde')
      in (\<lparr>w_value = w', w_tilde_value = w_tilde', y_value = y',
           residuals = residuals st @ [residual]\<rparr>, residual))"

fun admm_loop ::
  "solver \<Rightarrow> objective \<Rightarrow> objective \<Rightarrow> real \<Rightarrow> nat \<Rightarrow> admm_state \<Rightarrow> admm_state" where
  "admm_loop solve f g rho 0 st = st"
| "admm_loop solve f g rho (Suc left) st =
     (case admm_iteration solve f g rho st of
        (st', residual) \<Rightarrow>
          if residual < 1 / 10000 then st' else admm_loop solve f g rho left st')"

text \<open>
  The objectives of the notebook:
  \<^verbatim>\<open>f = lambda w_tilde: cp.sum_squares(A @ w_tilde - b) / 2\<close> and
  \<^verbatim>\<open>g = lambda w: cp.sum_squares(w) / 2\<close>; and its initial state (all zero).
\<close>

definition f_notebook :: "matrix \<Rightarrow> vec \<Rightarrow> objective" where
  "f_notebook A b = (\<lambda>u. sum_squares (vsub (map (\<lambda>row. dot row u) A) b) / 2)"

definition g_notebook :: objective where
  "g_notebook = (\<lambda>u. sum_squares u / 2)"

definition admm_init :: "nat \<Rightarrow> admm_state" where
  "admm_init n = \<lparr>w_value = replicate n 0, w_tilde_value = replicate n 0,
                  y_value = replicate n 0, residuals = []\<rparr>"

subsection \<open>The specification's w-update, minimizers, and a solver for concrete runs\<close>

text \<open>
  The specification's words for the objective of the w-update:
  \<open>g(u) + (\<rho>/2) \<parallel>u - w\<^sub>t\<^sub>i\<^sub>l\<^sub>d\<^sub>e + \<lambda>/\<rho>\<parallel>\<^sup>2\<close>.
\<close>

definition w_obj_spec :: "objective \<Rightarrow> real \<Rightarrow> vec \<Rightarrow> vec \<Rightarrow> objective" where
  "w_obj_spec g rho w_tilde lam =
     (\<lambda>u. g u + (rho / 2) * sum_squares (vadd (vsub u w_tilde) (vdiv lam rho)))"

definition is_minimizer :: "nat \<Rightarrow> objective \<Rightarrow> vec \<Rightarrow> bool" where
  "is_minimizer n obj u \<longleftrightarrow> length u = n \<and> (\<forall>u'. length u' = n \<longrightarrow> obj u \<le> obj u')"

text \<open>
  For concrete runs: the exact minimizer of a one-dimensional quadratic objective
  \<open>a t\<^sup>2 + b t + c\<close> with \<open>a > 0\<close>, read off three values of the objective. \<open>exact_solver\<close>
  reports it as optimal, \<open>stalled_solver\<close> leaves the same value and reports that it did
  not converge.
\<close>

definition quad_min_1d :: "objective \<Rightarrow> vec" where
  "quad_min_1d obj =
     (let c0 = obj [0]; c1 = obj [1]; cm = obj [- 1];
          a = (c1 + cm) / 2 - c0; b = (c1 - cm) / 2
      in [- b / (2 * a)])"

definition exact_solver :: solver where
  "exact_solver obj = (Optimal, quad_min_1d obj)"

definition stalled_solver :: solver where
  "stalled_solver obj = (OptimalInaccurate, quad_min_1d obj)"

section \<open>Rounding: auxiliary facts\<close>



lemma rnd_0: "rnd ar 0 = 0"
  by (cases ar) (simp_all add: fl64_def)





lemma reduce_seq:
  "reduce seq_lib xs
   = (case xs of [] \<Rightarrow> 0 | x # rest \<Rightarrow> foldl (\<lambda>acc a. fl64 (acc + a)) x rest)"
  by (simp add: reduce.rep_eq seq_lib.rep_eq seq_add_def)




section \<open>The projector: auxiliary facts\<close>





lemma length_cumsum_from: "length (cumsum_from ar a xs) = length xs"
  by (induction xs arbitrary: a) simp_all

lemma length_cumsum: "length (cumsum ar xs) = length xs"
  by (cases xs) (simp_all add: cumsum_def length_cumsum_from)





lemma masked_Nil: "masked [] bs = []"
  by (simp add: masked_def)

lemma masked_Cons: "masked (x # xs) (b # bs) = (if b then x # masked xs bs else masked xs bs)"
  by (simp add: masked_def)

lemma masked_all_false:
  "length xs = length bs \<Longrightarrow> \<forall>i<length bs. \<not> bs ! i \<Longrightarrow> masked xs bs = []"
proof (induction xs bs rule: list_induct2)
  case Nil
  then show ?case by (simp add: masked_Nil)
next
  case (Cons x xs b bs)
  from Cons.prems have "\<not> b" by auto
  moreover from Cons.prems have "\<forall>i<length bs. \<not> bs ! i" by auto
  ultimately show ?case using Cons.IH by (simp add: masked_Cons)
qed


lemma cond_nth:
  assumes "i < length s"
  shows "map (\<lambda>(si, ci, i). rnd ar (si - rnd ar (ci / real i)) > 0)
           (zip s (zip (map (\<lambda>c. rnd ar (c - N)) (cumsum ar s)) (map (\<lambda>i. i + 1) [0..<length s]))) ! i
         = qualifies ar s N i"
  using assms by (simp add: length_cumsum qualifies_def thr_def)



lemma project_fail:
  assumes "\<not> norm1 ar v \<le> N" and "s = rev (sort (map abs v))"
    and "\<forall>i<length s. \<not> qualifies ar s N i"
  shows "project_onto_l1_ball ar v N = Inl IndexError"
proof -
  define cssv where "cssv = map (\<lambda>c. rnd ar (c - N)) (cumsum ar s)"
  define ind where "ind = map (\<lambda>i. i + 1) [0..<length s]"
  define cond where
    "cond = map (\<lambda>(si, ci, i). rnd ar (si - rnd ar (ci / real i)) > 0) (zip s (zip cssv ind))"
  have len: "length cond = length s" "length cssv = length s" "length ind = length s"
    by (simp_all add: cond_def cssv_def ind_def length_cumsum)
  have nth: "cond ! i = qualifies ar s N i" if "i < length s" for i
    unfolding cond_def cssv_def ind_def using that by (rule cond_nth)
  have "\<forall>i<length cond. \<not> cond ! i"
    using assms(3) nth len by simp
  then have m: "masked ind cond = []"
    by (intro masked_all_false) (simp_all add: len)
  have n: "\<not> asum ar (map abs v) \<le> N" using assms(1) by (simp add: norm1_def)
  show ?thesis
    unfolding project_onto_l1_ball_def Let_def
    using assms(1) n m [unfolded cond_def cssv_def ind_def]
    by (simp flip: assms(2))
qed







section \<open>The projector in exact arithmetic\<close>









lemma sum_list_sort: "sum_list (map f (sort xs)) = sum_list (map f xs)"
  for f :: "real \<Rightarrow> real"
proof -
  have "sum_mset (image_mset f (mset (sort xs))) = sum_mset (image_mset f (mset xs))"
    by simp
  then show ?thesis
    by (simp only: sum_mset_sum_list flip: mset_map)
qed

lemma sorted_abs_facts:
  fixes f :: "real \<Rightarrow> real"
  shows sorted_abs_desc: "sorted (rev (sorted_abs v))"
    and sorted_abs_nonneg: "\<forall>x\<in>set (sorted_abs v). 0 \<le> x"
    and sorted_abs_sum: "sum_list (map f (sorted_abs v)) = sum_list (map f (map abs v))"
proof -
  show "sorted (rev (sorted_abs v))" by (simp add: sorted_abs_def)
  show "\<forall>x\<in>set (sorted_abs v). 0 \<le> x" by (auto simp: sorted_abs_def)
  have "sum_list (map f (sorted_abs v)) = sum_list (rev (map f (sort (map abs v))))"
    by (simp add: sorted_abs_def rev_map)
  also have "\<dots> = sum_list (map f (sort (map abs v)))" by (rule sum_list_rev)
  also have "\<dots> = sum_list (map f (map abs v))" by (rule sum_list_sort)
  finally show "sum_list (map f (sorted_abs v)) = sum_list (map f (map abs v))" .
qed





section \<open>Values of the rounding, for the concrete runs\<close>




































section \<open>Runs without rounding\<close>




section \<open>The gradient and the descent loop: auxiliary facts\<close>


















section \<open>The ADMM loop: auxiliary facts\<close>

lemma norm2_single: "norm2 [a] = \<bar>a\<bar>"
  by (simp add: norm2_def sum_squares_def)

lemmas admm_eval = admm_iteration_def w_tilde_obj_def w_obj_def f_notebook_def g_notebook_def
  quad_min_1d_def vadd_def vsub_def vdiv_def dot_def sum_squares_def norm2_single admm_init_def

lemma exact_iteration_1:
  "admm_iteration exact_solver (f_notebook [[1]] [2]) g_notebook 1 (admm_init 1)
   = (\<lparr>w_value = [1 / 2], w_tilde_value = [1], y_value = [1 / 2], residuals = [1 / 2]\<rparr>, 1 / 2)"
  by (simp add: admm_eval exact_solver_def Let_def)

lemma exact_iteration_2:
  "admm_iteration exact_solver (f_notebook [[1]] [2]) g_notebook 1
     \<lparr>w_value = [1 / 2], w_tilde_value = [1], y_value = [1 / 2], residuals = [1 / 2]\<rparr>
   = (\<lparr>w_value = [3 / 4], w_tilde_value = [1], y_value = [3 / 4], residuals = [1 / 2, 1 / 4]\<rparr>, 1 / 4)"
  by (simp add: admm_eval exact_solver_def Let_def)

lemma admm_loop_continue:
  "admm_iteration solve f g rho st = (st', r) \<Longrightarrow> \<not> r < 1 / 10000 \<Longrightarrow>
   admm_loop solve f g rho (Suc left) st = admm_loop solve f g rho left st'"
  by simp

lemma admm_loop_two:
  assumes "admm_iteration solve f g rho st = (st1, r1)" and "\<not> r1 < 1 / 10000"
    and "admm_iteration solve f g rho st1 = (st2, r2)" and "\<not> r2 < 1 / 10000"
  shows "admm_loop solve f g rho 1 st = st1" and "admm_loop solve f g rho 2 st = st2"
proof -
  have "admm_loop solve f g rho (Suc 0) st = admm_loop solve f g rho 0 st1"
    using assms(1,2) by (rule admm_loop_continue)
  then show "admm_loop solve f g rho 1 st = st1" by simp
  have "admm_loop solve f g rho (Suc (Suc 0)) st = admm_loop solve f g rho (Suc 0) st1"
    using assms(1,2) by (rule admm_loop_continue)
  also have "\<dots> = admm_loop solve f g rho 0 st2"
    using assms(3,4) by (rule admm_loop_continue)
  finally show "admm_loop solve f g rho 2 st = st2" by (simp add: numeral_2_eq_2)
qed

lemmas exact_run = admm_loop_two [OF exact_iteration_1 _ exact_iteration_2]

lemma exact_loop_1:
  "admm_loop exact_solver (f_notebook [[1]] [2]) g_notebook 1 1 (admm_init 1)
   = \<lparr>w_value = [1 / 2], w_tilde_value = [1], y_value = [1 / 2], residuals = [1 / 2]\<rparr>"
  by (rule exact_run) simp_all

lemma exact_loop_2:
  "admm_loop exact_solver (f_notebook [[1]] [2]) g_notebook 1 2 (admm_init 1)
   = \<lparr>w_value = [3 / 4], w_tilde_value = [1], y_value = [3 / 4], residuals = [1 / 2, 1 / 4]\<rparr>"
  by (rule exact_run) simp_all

lemma sum_squares_sum:
  "length v = n \<Longrightarrow> sum_squares v = (\<Sum>i = 0..<n. (v ! i)\<^sup>2)"
  by (auto simp: sum_squares_def sum_list_sum_nth power2_eq_square)

lemma w_obj_sum:
  assumes "length u = n" and "length wt = n" and "length y = n"
  shows "w_obj g rho wt y u = g u + (rho / 2) * (\<Sum>i = 0..<n. (u ! i - wt ! i - y ! i / rho)\<^sup>2)"
proof -
  have "length (vsub (vsub u wt) (vdiv y rho)) = n"
    using assms by (simp add: vsub_def vdiv_def)
  then have "sum_squares (vsub (vsub u wt) (vdiv y rho))
      = (\<Sum>i = 0..<n. (vsub (vsub u wt) (vdiv y rho) ! i)\<^sup>2)"
    by (rule sum_squares_sum)
  also have "\<dots> = (\<Sum>i = 0..<n. (u ! i - wt ! i - y ! i / rho)\<^sup>2)"
    using assms by (intro sum.cong refl) (simp add: vsub_def vdiv_def)
  finally show ?thesis by (simp add: w_obj_def)
qed

lemma w_obj_example_minimizer:
  "is_minimizer 1 (w_obj g_notebook 1 [1] [1 / 2]) [3 / 4]"
  unfolding is_minimizer_def
proof (intro conjI allI impI)
  show "length [3 / 4 :: real] = 1" by simp
  fix u' :: vec assume "length u' = 1"
  then obtain t where u': "u' = [t]" by (cases u') auto
  have v: "w_obj g_notebook 1 [1] [1 / 2] [c] = c * c / 2 + (c - 3 / 2) * (c - 3 / 2) / 2" for c
    by (simp add: w_obj_def g_notebook_def vsub_def vdiv_def sum_squares_def)
  have "w_obj g_notebook 1 [1] [1 / 2] [t] - w_obj g_notebook 1 [1] [1 / 2] [3 / 4] = (t - 3 / 4)\<^sup>2"
    unfolding v by (simp add: power2_eq_square field_simps)
  moreover have "0 \<le> (t - 3 / 4)\<^sup>2" by simp
  ultimately show "w_obj g_notebook 1 [1] [1 / 2] [3 / 4] \<le> w_obj g_notebook 1 [1] [1 / 2] u'"
    unfolding u' by linarith
qed

section \<open>The projector: the claims\<close>















section \<open>The gradient and the descent loop: the claims\<close>






text \<open>
  C10. With an iteration budget of \<open>0\<close> the function returns the starting point as it is,
  for all inputs (no gradient, step or projection is computed, so ill-shaped inputs raise
  nothing), also when the starting point lies outside the ball.
\<close>

theorem gradient_descent_zero_budget:
  "gradient_descent ar N A x0 y eta 0 eps = Inr (x0, None)
   \<and> N_notebook < norm1 Exact [20] \<and> N_notebook < norm1 Double_seq [20]
   \<and> gradient_descent ar N_notebook [[1]] [20] [0] eta 0 eps = Inr ([20], None)"
  by (simp add: gradient_descent_def N_notebook_def norm1_def reduce_seq)

section \<open>The ADMM loop: the claims\<close>

text \<open>
  C2, as the code has it. In every iteration the w-update hands the solver the objective
  \<open>g(u) + (\<rho>/2) \<parallel>u - w\<^sub>t\<^sub>i\<^sub>l\<^sub>d\<^sub>e - y/\<rho>\<parallel>\<^sup>2\<close>, where \<open>w\<^sub>t\<^sub>i\<^sub>l\<^sub>d\<^sub>e\<close> is the value the solver left in the
  first update of the same iteration and \<open>y\<close> is the dual variable of the previous
  iteration: the dual term enters with a minus sign. When the solver returns a minimizer of
  the objective it is given, the new \<open>w\<close> is a minimizer of that objective.
\<close>

theorem admm_w_update:
  assumes "length (y_value st) = n"
    and "wt = snd (solve (w_tilde_obj f rho (w_value st) (y_value st)))"
    and "length wt = n"
    and "is_minimizer n (w_obj g rho wt (y_value st)) (snd (solve (w_obj g rho wt (y_value st))))"
  shows "w_tilde_value (fst (admm_iteration solve f g rho st)) = wt
    \<and> is_minimizer n
        (\<lambda>u. g u + (rho / 2) * (\<Sum>i = 0..<n. (u ! i - wt ! i - y_value st ! i / rho)\<^sup>2))
        (w_value (fst (admm_iteration solve f g rho st)))"
proof -
  let ?w = "snd (solve (w_obj g rho wt (y_value st)))"
  have w: "w_value (fst (admm_iteration solve f g rho st)) = ?w"
    and t: "w_tilde_value (fst (admm_iteration solve f g rho st)) = wt"
    by (simp_all add: admm_iteration_def Let_def assms(2))
  from assms(4) have len: "length ?w = n"
    and least: "\<And>u'. length u' = n \<Longrightarrow> w_obj g rho wt (y_value st) ?w \<le> w_obj g rho wt (y_value st) u'"
    by (simp_all add: is_minimizer_def)
  have "is_minimizer n
        (\<lambda>u. g u + (rho / 2) * (\<Sum>i = 0..<n. (u ! i - wt ! i - y_value st ! i / rho)\<^sup>2)) ?w"
    unfolding is_minimizer_def
  proof (intro conjI allI impI)
    show "length ?w = n" by (rule len)
    fix u' :: vec assume u': "length u' = n"
    from least [OF u'] show "g ?w + (rho / 2) * (\<Sum>i = 0..<n. (?w ! i - wt ! i - y_value st ! i / rho)\<^sup>2)
        \<le> g u' + (rho / 2) * (\<Sum>i = 0..<n. (u' ! i - wt ! i - y_value st ! i / rho)\<^sup>2)"
      by (simp only: w_obj_sum [OF len assms(3) assms(1)] w_obj_sum [OF u' assms(3) assms(1)])
  qed
  with w t show ?thesis by simp
qed

theorem admm_w_update_witness:
  "length (y_value \<lparr>w_value = [1 / 2], w_tilde_value = [1], y_value = [1 / 2], residuals = [1 / 2]\<rparr>) = 1
   \<and> [1] = snd (exact_solver (w_tilde_obj (f_notebook [[1]] [2]) 1 [1 / 2] [1 / 2]))
   \<and> is_minimizer 1 (w_obj g_notebook 1 [1] [1 / 2])
        (snd (exact_solver (w_obj g_notebook 1 [1] [1 / 2])))
   \<and> w_tilde_value (fst (admm_iteration exact_solver (f_notebook [[1]] [2]) g_notebook 1
        \<lparr>w_value = [1 / 2], w_tilde_value = [1], y_value = [1 / 2], residuals = [1 / 2]\<rparr>)) = [1]
   \<and> is_minimizer 1
        (\<lambda>u. g_notebook u + (1 / 2) * (\<Sum>i = 0..<1. (u ! i - [1] ! i - [1 / 2] ! i / 1)\<^sup>2))
        (w_value (fst (admm_iteration exact_solver (f_notebook [[1]] [2]) g_notebook 1
        \<lparr>w_value = [1 / 2], w_tilde_value = [1], y_value = [1 / 2], residuals = [1 / 2]\<rparr>)))"
proof -
  let ?st = "\<lparr>w_value = [1 / 2], w_tilde_value = [1], y_value = [1 / 2], residuals = [1 / 2]\<rparr>"
  have h1: "length (y_value ?st) = 1" by simp
  have h2: "[1] = snd (exact_solver (w_tilde_obj (f_notebook [[1]] [2]) 1 (w_value ?st) (y_value ?st)))"
    by (simp add: exact_solver_def admm_eval Let_def)
  have h3: "length [1 :: real] = 1" by simp
  have s: "snd (exact_solver (w_obj g_notebook 1 [1] [1 / 2])) = [3 / 4]"
    by (simp add: exact_solver_def admm_eval Let_def)
  have h4: "is_minimizer 1 (w_obj g_notebook 1 [1] (y_value ?st))
        (snd (exact_solver (w_obj g_notebook 1 [1] (y_value ?st))))"
    using w_obj_example_minimizer by (simp add: s)
  from admm_w_update [OF h1 h2 h3 h4] h2 h4 show ?thesis by simp
qed

text \<open>
  The claim as stated has the dual term with a plus sign. In the second iteration of a run
  with an exact solver (\<open>n = 1\<close>, \<open>f(u) = (u - 2)\<^sup>2 / 2\<close>, \<open>g(u) = u\<^sup>2 / 2\<close>, \<open>\<rho> = 1\<close>) the
  w-update yields \<open>3/4\<close>, which does not minimize the objective with the plus sign: \<open>1/4\<close> has
  a smaller value.
\<close>

theorem admm_w_update_spec_counterexample:
  "w_value (admm_loop exact_solver (f_notebook [[1]] [2]) g_notebook 1 2 (admm_init 1)) = [3 / 4]
   \<and> w_tilde_value (admm_loop exact_solver (f_notebook [[1]] [2]) g_notebook 1 2 (admm_init 1)) = [1]
   \<and> y_value (admm_loop exact_solver (f_notebook [[1]] [2]) g_notebook 1 1 (admm_init 1)) = [1 / 2]
   \<and> w_obj_spec g_notebook 1 [1] [1 / 2] [1 / 4] < w_obj_spec g_notebook 1 [1] [1 / 2] [3 / 4]
   \<and> \<not> is_minimizer 1 (w_obj_spec g_notebook 1 [1] [1 / 2]) [3 / 4]"
proof -
  have lt: "w_obj_spec g_notebook 1 [1] [1 / 2] [1 / 4] < w_obj_spec g_notebook 1 [1] [1 / 2] [3 / 4]"
    by (simp add: w_obj_spec_def g_notebook_def vadd_def vsub_def vdiv_def sum_squares_def)
  have "\<not> is_minimizer 1 (w_obj_spec g_notebook 1 [1] [1 / 2]) [3 / 4]"
  proof
    assume "is_minimizer 1 (w_obj_spec g_notebook 1 [1] [1 / 2]) [3 / 4]"
    then have "w_obj_spec g_notebook 1 [1] [1 / 2] [3 / 4] \<le> w_obj_spec g_notebook 1 [1] [1 / 2] [1 / 4]"
      by (simp add: is_minimizer_def)
    with lt show False by simp
  qed
  with lt show ?thesis by (simp only: exact_loop_1 exact_loop_2 admm_state.simps simp_thms)
qed

text \<open>
  C6, as the code has it. The loop never looks at the outcome of a sub-solve: whatever
  status the solver reports with the value it leaves (failure to converge included), the
  loop computes what it computes for a solver that reports success with the same values.
  There is no condition that names a failing block or an iteration.
\<close>

theorem admm_ignores_status:
  "admm_loop (\<lambda>obj. (status obj, value obj)) f g rho K st
   = admm_loop (\<lambda>obj. (Optimal, value obj)) f g rho K st"
proof (induction K arbitrary: st)
  case 0
  show ?case by simp
next
  case (Suc K)
  have "admm_iteration (\<lambda>obj. (status obj, value obj)) f g rho st
      = admm_iteration (\<lambda>obj. (Optimal, value obj)) f g rho st"
    by (simp add: admm_iteration_def)
  with Suc show ?case by (simp split: prod.splits)
qed

text \<open>
  A run in which both sub-solves of every iteration report that they did not converge: the
  loop goes through two iterations and ends in a regular state.
\<close>

theorem admm_stalled_counterexample:
  "fst (stalled_solver (w_tilde_obj (f_notebook [[1]] [2]) 1 [0] [0])) = OptimalInaccurate
   \<and> fst (stalled_solver (w_obj g_notebook 1 [1] [0])) = OptimalInaccurate
   \<and> admm_loop stalled_solver (f_notebook [[1]] [2]) g_notebook 1 2 (admm_init 1)
     = \<lparr>w_value = [3 / 4], w_tilde_value = [1], y_value = [3 / 4], residuals = [1 / 2, 1 / 4]\<rparr>"
proof -
  have a: "admm_iteration stalled_solver (f_notebook [[1]] [2]) g_notebook 1 (admm_init 1)
   = (\<lparr>w_value = [1 / 2], w_tilde_value = [1], y_value = [1 / 2], residuals = [1 / 2]\<rparr>, 1 / 2)"
    by (simp add: admm_eval stalled_solver_def Let_def)
  have b: "admm_iteration stalled_solver (f_notebook [[1]] [2]) g_notebook 1
     \<lparr>w_value = [1 / 2], w_tilde_value = [1], y_value = [1 / 2], residuals = [1 / 2]\<rparr>
   = (\<lparr>w_value = [3 / 4], w_tilde_value = [1], y_value = [3 / 4], residuals = [1 / 2, 1 / 4]\<rparr>, 1 / 4)"
    by (simp add: admm_eval stalled_solver_def Let_def)
  have "admm_loop stalled_solver (f_notebook [[1]] [2]) g_notebook 1 2 (admm_init 1)
     = \<lparr>w_value = [3 / 4], w_tilde_value = [1], y_value = [3 / 4], residuals = [1 / 2, 1 / 4]\<rparr>"
    by (rule admm_loop_two(2) [OF a _ b]) simp_all
  then show ?thesis by (simp add: stalled_solver_def)
qed

end
